theory Spec2Isabelle
  imports Main
begin

section \<open>The run-loop controller of \<^verbatim>\<open>app.py\<close>\<close>

text \<open>
  The program is one class, \<^verbatim>\<open>App\<close>, with two fields and three methods, and a
  two-line main block. Its behaviour depends on what the process meets while it runs:
  signals, exceptions raised by the statements it executes, and the passing of time
  while it sleeps. The model is a deterministic machine: a configuration holds the
  place reached in \<^verbatim>\<open>run()\<close> (a source line), the instance, the process-wide
  state the program touches, and one event of the surroundings drives one step.
\<close>

subsection \<open>Data\<close>

text \<open>The two signals the program registers for (lines 46 and 47).\<close>

datatype signum = SIGINT | SIGTERM

text \<open>
  Python's exception hierarchy as far as the \<^verbatim>\<open>except\<close> clauses of lines 69 and 71
  can tell its members apart: \<^verbatim>\<open>KeyboardInterrupt\<close>, \<^verbatim>\<open>SystemExit\<close> and
  \<^verbatim>\<open>GeneratorExit\<close> derive from \<^verbatim>\<open>BaseException\<close> only; every other exception is
  an instance of \<^verbatim>\<open>Exception\<close>, kept here with its \<^verbatim>\<open>str(e)\<close>.
\<close>

datatype exn = KeyboardInterrupt | SystemExit | GeneratorExit | Exception string

datatype level = INFO | ERROR

text \<open>
  The log messages of the program, one constructor per format string, with the values
  the f-string interpolates.
\<close>

datatype message =
    Received_signal signum  \<comment> \<open>line 34: \<^verbatim>\<open>Received signal {signum}, shutting down gracefully...\<close>\<close>
  | Python_executable string  \<comment> \<open>line 39\<close>
  | Python_version string  \<comment> \<open>line 40\<close>
  | Virtual_environment string  \<comment> \<open>line 41\<close>
  | Working_directory string  \<comment> \<open>line 42\<close>
  | Starting_App_service  \<comment> \<open>line 49\<close>
  | Application_running int nat  \<comment> \<open>line 59: \<^verbatim>\<open>Counter: {self.counter}, Time: {current_time}\<close>\<close>
  | Received_keyboard_interrupt  \<comment> \<open>line 70\<close>
  | Unexpected_error string  \<comment> \<open>line 72: \<^verbatim>\<open>Unexpected error: {e}\<close>\<close>
  | App_service_stopped  \<comment> \<open>line 74\<close>

text \<open>
  A log record: severity, message, and the exception whose stack trace is attached
  (\<^verbatim>\<open>exc_info=True\<close>), if any.
\<close>

datatype log_entry = Entry level message "exn option"

text \<open>The instance: \<^verbatim>\<open>self.running\<close> and \<^verbatim>\<open>self.counter\<close> (a Python int).\<close>

record App =
  running :: bool
  counter :: int

text \<open>Lines 29 to 31, \<^verbatim>\<open>App.__init__\<close>.\<close>

definition init :: App where
  "init = \<lparr>running = True, counter = 0\<rparr>"

text \<open>
  Lines 33 to 35, \<^verbatim>\<open>App.signal_handler\<close>: one informational log record, then the flag
  is cleared. The instance may have further fields (the record's extension).
\<close>

definition signal_handler ::
  "'a App_scheme \<Rightarrow> signum \<Rightarrow> log_entry list \<Rightarrow> 'a App_scheme \<times> log_entry list" where
  "signal_handler self sg lg =
     (self\<lparr>running := False\<rparr>, lg @ [Entry INFO (Received_signal sg) None])"

text \<open>What \<^verbatim>\<open>log_environment_info\<close> reads from the interpreter and the process.\<close>

record sysinfo =
  executable :: string
  version :: string
  environ :: "string \<Rightarrow> string option"
  cwd :: string

text \<open>
  Lines 37 to 42, \<^verbatim>\<open>App.log_environment_info\<close>;
  \<^verbatim>\<open>os.environ.get('VIRTUAL_ENV', 'Not set')\<close> is the lookup with its default.
\<close>

definition log_environment_info :: "sysinfo \<Rightarrow> log_entry list \<Rightarrow> log_entry list" where
  "log_environment_info si lg = lg @
     [Entry INFO (Python_executable (executable si)) None,
      Entry INFO (Python_version (version si)) None,
      Entry INFO (Virtual_environment
        (case environ si ''VIRTUAL_ENV'' of None \<Rightarrow> ''Not set'' | Some v \<Rightarrow> v)) None,
      Entry INFO (Working_directory (cwd si)) None]"

subsection \<open>Configurations\<close>

text \<open>
  The place reached, named by the source line about to execute. \<open>L67 r\<close> is inside
  \<^verbatim>\<open>time.sleep(60)\<close> with \<open>r\<close> seconds left; \<open>L74 p\<close> is the \<^verbatim>\<open>finally\<close> block with
  the exception \<open>p\<close> still to be re-raised after it, if any. The last three are final:
  \<^verbatim>\<open>run()\<close> has returned, an exception has left \<^verbatim>\<open>run()\<close>, or the default action of
  a signal has ended the process.
\<close>

datatype pc =
    L46 | L47 | L49 | L52
  | L55 | L57 | L59 | L67 nat
  | L74 "exn option"
  | Returned | Uncaught exn | Killed signum

text \<open>
  The process-wide table \<^verbatim>\<open>signal.signal\<close> writes: the default action, the bound
  method \<^verbatim>\<open>signal_handler\<close> of the instance now running, or that of an instance
  whose \<^verbatim>\<open>run()\<close> returned earlier in the same process.
\<close>

datatype disposition = SIG_DFL | Bound_self | Bound_retired nat

record config =
  pc :: pc
  app :: App
  retired :: "App list"
  handlers :: "signum \<Rightarrow> disposition"
  logs :: "log_entry list"
  clock :: nat
  sys :: sysinfo

text \<open>
  What the surroundings do next: deliver a signal, let the statement at hand run to its
  end (inside \<^verbatim>\<open>time.sleep\<close>: let one second pass), or make it raise.
\<close>

datatype event = EvSig signum | EvStep | EvRaise exn

fun terminal :: "pc \<Rightarrow> bool" where
  "terminal Returned = True"
| "terminal (Uncaught e) = True"
| "terminal (Killed s) = True"
| "terminal _ = False"

text \<open>The statements of the \<^verbatim>\<open>try\<close> block, lines 55 to 67.\<close>

fun in_try :: "pc \<Rightarrow> bool" where
  "in_try L55 = True"
| "in_try L57 = True"
| "in_try L59 = True"
| "in_try (L67 r) = True"
| "in_try _ = False"

text \<open>
  Lines 69 to 73: an exception raised inside the \<^verbatim>\<open>try\<close> block meets the two
  \<^verbatim>\<open>except\<close> clauses in their order; one that matches neither stays pending while
  the \<^verbatim>\<open>finally\<close> block runs.
\<close>

definition except :: "exn \<Rightarrow> config \<Rightarrow> config" where
  "except e c =
     (case e of
        KeyboardInterrupt \<Rightarrow>
          c\<lparr>logs := logs c @ [Entry INFO Received_keyboard_interrupt None], pc := L74 None\<rparr>
      | Exception m \<Rightarrow>
          c\<lparr>logs := logs c @ [Entry ERROR (Unexpected_error m) (Some e)], pc := L74 None\<rparr>
      | _ \<Rightarrow> c\<lparr>pc := L74 (Some e)\<rparr>)"

text \<open>
  An exception raised by the statement at hand: handled as above inside the \<^verbatim>\<open>try\<close>
  block, leaving \<^verbatim>\<open>run()\<close> everywhere else (the four statements before the block, and
  the \<^verbatim>\<open>finally\<close> block itself).
\<close>

definition raise :: "exn \<Rightarrow> config \<Rightarrow> config" where
  "raise e c =
     (if terminal (pc c) then c
      else if in_try (pc c) then except e c
      else c\<lparr>pc := Uncaught e\<rparr>)"

text \<open>
  A signal arrives. With the default action, \<^verbatim>\<open>SIGTERM\<close> ends the process and
  \<^verbatim>\<open>SIGINT\<close> raises \<^verbatim>\<open>KeyboardInterrupt\<close> in the main thread; with a registered
  handler, the handler runs between two instructions of the main thread and the
  statement at hand goes on. That holds inside \<^verbatim>\<open>time.sleep\<close> too: since Python 3.5
  the call sleeps its full time when the handler returns without raising, and the
  program's f-strings need Python 3.6.
\<close>

definition deliver :: "signum \<Rightarrow> config \<Rightarrow> config" where
  "deliver sg c =
     (case handlers c sg of
        SIG_DFL \<Rightarrow>
          (case sg of SIGTERM \<Rightarrow> c\<lparr>pc := Killed SIGTERM\<rparr> | SIGINT \<Rightarrow> raise KeyboardInterrupt c)
      | Bound_self \<Rightarrow>
          (case signal_handler (app c) sg (logs c) of (a, lg) \<Rightarrow> c\<lparr>app := a, logs := lg\<rparr>)
      | Bound_retired i \<Rightarrow>
          (if i < length (retired c) then
             (case signal_handler (retired c ! i) sg (logs c) of
                (a, lg) \<Rightarrow> c\<lparr>retired := (retired c)[i := a], logs := lg\<rparr>)
           else c))"

text \<open>
  Lines 44 to 74, the body of \<^verbatim>\<open>App.run\<close>, one statement at a time, when the
  statement at hand runs to its end. Lines 58 and 59 (read the time, log it with the
  counter) are one step; only sleeping takes time.
\<close>

definition statement :: "config \<Rightarrow> config" where
  "statement c =
     (case pc c of
        L46 \<Rightarrow> c\<lparr>handlers := (handlers c)(SIGTERM := Bound_self), pc := L47\<rparr>
      | L47 \<Rightarrow> c\<lparr>handlers := (handlers c)(SIGINT := Bound_self), pc := L49\<rparr>
      | L49 \<Rightarrow> c\<lparr>logs := logs c @ [Entry INFO Starting_App_service None], pc := L52\<rparr>
      | L52 \<Rightarrow> c\<lparr>logs := log_environment_info (sys c) (logs c), pc := L55\<rparr>
      | L55 \<Rightarrow> c\<lparr>pc := (if running (app c) then L57 else L74 None)\<rparr>
      | L57 \<Rightarrow> c\<lparr>app := (app c)\<lparr>counter := counter (app c) + 1\<rparr>, pc := L59\<rparr>
      | L59 \<Rightarrow>
          c\<lparr>logs := logs c @ [Entry INFO (Application_running (counter (app c)) (clock c)) None],
            pc := L67 60\<rparr>
      | L67 r \<Rightarrow>
          (case r of
             0 \<Rightarrow> c\<lparr>pc := L55\<rparr>
           | Suc r' \<Rightarrow> c\<lparr>clock := clock c + 1, pc := (if r' = 0 then L55 else L67 r')\<rparr>)
      | L74 p \<Rightarrow>
          c\<lparr>logs := logs c @ [Entry INFO App_service_stopped None],
            pc := (case p of None \<Rightarrow> Returned | Some e \<Rightarrow> Uncaught e)\<rparr>
      | Returned \<Rightarrow> c
      | Uncaught e \<Rightarrow> c
      | Killed sg \<Rightarrow> c)"

fun step :: "config \<Rightarrow> event \<Rightarrow> config" where
  "step c (EvSig sg) = (if terminal (pc c) then c else deliver sg c)"
| "step c EvStep = statement c"
| "step c (EvRaise e) = raise e c"

text \<open>
  \<^verbatim>\<open>App.run\<close> under a sequence of events. The loop of lines 55 to 67 has no bound:
  a run whose place is not final after the events given is still going, and a theorem
  that says \<^verbatim>\<open>run()\<close> returns names the events after which it has.
\<close>

fun run :: "config \<Rightarrow> event list \<Rightarrow> config" where
  "run c [] = c"
| "run c (ev # evs) = run (step c ev) evs"

text \<open>
  Lines 76 to 78: a fresh process (every signal at its default action, nothing logged)
  constructs the instance and calls \<^verbatim>\<open>run()\<close>.
\<close>

definition boot :: "sysinfo \<Rightarrow> nat \<Rightarrow> config" where
  "boot si t =
     \<lparr>pc = L46, app = init, retired = [], handlers = (\<lambda>_. SIG_DFL), logs = [],
      clock = t, sys = si\<rparr>"

definition main :: "sysinfo \<Rightarrow> nat \<Rightarrow> event list \<Rightarrow> config" where
  "main si t evs = run (boot si t) evs"

text \<open>
  How the process ends. Nothing follows \<^verbatim>\<open>app.run()\<close> in the main block and the
  program never calls \<^verbatim>\<open>sys.exit\<close>, so the exit status is 0 whenever \<^verbatim>\<open>run()\<close>
  returns.
\<close>

datatype status = Exit int | Traceback exn | Signalled signum | Alive

definition exit_status :: "config \<Rightarrow> status" where
  "exit_status c =
     (case pc c of
        Returned \<Rightarrow> Exit 0
      | Uncaught e \<Rightarrow> Traceback e
      | Killed sg \<Rightarrow> Signalled sg
      | _ \<Rightarrow> Alive)"

subsection \<open>Observations\<close>

text \<open>A process to run examples in: no \<^verbatim>\<open>VIRTUAL_ENV\<close> in its environment.\<close>

definition a_system :: sysinfo where
  "a_system =
     \<lparr>executable = ''/usr/bin/python3'', version = ''3.11'', environ = (\<lambda>_. None),
      cwd = ''/''\<rparr>"

text \<open>The four statements before the \<^verbatim>\<open>try\<close> block, lines 46 to 52.\<close>

fun starting :: "pc \<Rightarrow> bool" where
  "starting L46 = True"
| "starting L47 = True"
| "starting L49 = True"
| "starting L52 = True"
| "starting _ = False"

text \<open>
  The four states of the specification's state machine, read off a configuration: the
  run is \<open>Running\<close> inside the \<^verbatim>\<open>try\<close> block while the flag is set, \<open>Stopping\<close> once
  the flag is cleared or the block has been left, \<open>Stopped\<close> when it is over.
\<close>

datatype phase = Starting | Running | Stopping | Stopped

definition phase :: "config \<Rightarrow> phase" where
  "phase c =
     (if terminal (pc c) then Stopped
      else if starting (pc c) then Starting
      else if in_try (pc c) \<and> running (app c) then Running
      else Stopping)"




fun severity :: "log_entry \<Rightarrow> level" where
  "severity (Entry lv m x) = lv"


text \<open>
  A second call in the same process, \<^verbatim>\<open>App().run()\<close> after an earlier \<^verbatim>\<open>run()\<close>
  has returned: a new instance from \<^verbatim>\<open>__init__\<close>, while the log, the clock and the
  signal table are what the earlier run left. The table still holds the earlier
  instance's bound method, which keeps that instance alive.
\<close>

definition new_instance :: "config \<Rightarrow> config" where
  "new_instance c =
     c\<lparr>pc := L46, app := init, retired := retired c @ [app c],
       handlers := (\<lambda>sg. case handlers c sg of
          Bound_self \<Rightarrow> Bound_retired (length (retired c)) | d \<Rightarrow> d)\<rparr>"




text \<open>
  Everything of a configuration but the environment variables and the one log record
  that shows \<^verbatim>\<open>VIRTUAL_ENV\<close>, whose text is blanked.
\<close>

fun redact :: "log_entry \<Rightarrow> log_entry" where
  "redact (Entry lv (Virtual_environment v) x) = Entry lv (Virtual_environment []) x"
| "redact e = e"

definition control ::
  "config \<Rightarrow> pc \<times> App \<times> App list \<times> (signum \<Rightarrow> disposition) \<times> nat \<times> log_entry list" where
  "control c = (pc c, app c, retired c, handlers c, clock c, map redact (logs c))"

subsection \<open>Invariants and relations used in the proofs\<close>





text \<open>Two runs that differ in their environment variables at most.\<close>

definition env_sim :: "config \<Rightarrow> config \<Rightarrow> bool" where
  "env_sim c d \<longleftrightarrow>
     control c = control d \<and> executable (sys c) = executable (sys d)
     \<and> version (sys c) = version (sys d) \<and> cwd (sys c) = cwd (sys d)"

section \<open>Properties of single steps and of runs\<close>

lemmas step_defs = statement_def raise_def except_def deliver_def signal_handler_def

lemmas eval_defs =
  main_def boot_def a_system_def init_def step_defs log_environment_info_def exit_status_def

lemma run_append: "run c (xs @ ys) = run (run c xs) ys"
  by (induction xs arbitrary: c) auto





subsection \<open>The flag\<close>

lemma step_not_running: "\<not> running (app c) \<Longrightarrow> \<not> running (app (step c ev))"
  by (cases ev)
     (auto simp: step_defs
           split: pc.splits exn.splits disposition.splits signum.splits nat.splits
             option.splits)

lemma run_not_running: "\<not> running (app c) \<Longrightarrow> \<not> running (app (run c evs))"
  by (induction evs arbitrary: c) (auto simp: step_not_running)

lemma phase_step:
  "phase c = Stopping \<or> phase c = Stopped \<Longrightarrow>
     phase (step c ev) = Stopping \<or> phase (step c ev) = Stopped"
  by (cases ev; cases "pc c")
     (auto simp: phase_def step_defs
           split: exn.splits disposition.splits signum.splits nat.splits option.splits
             if_splits)

lemma phase_run:
  "phase c = Stopping \<or> phase c = Stopped \<Longrightarrow>
     phase (run c evs) = Stopping \<or> phase (run c evs) = Stopped"
proof (induction evs arbitrary: c)
  case Nil
  then show ?case by simp
next
  case (Cons ev evs)
  from Cons.prems have "phase (step c ev) = Stopping \<or> phase (step c ev) = Stopped"
    by (rule phase_step)
  then show ?case using Cons.IH by simp
qed

text \<open>The instances of earlier runs: their number stays, and a cleared flag stays cleared.\<close>

lemma retired_step:
  "length (retired (step c ev)) = length (retired c)
   \<and> (i < length (retired c) \<longrightarrow> \<not> running (retired c ! i) \<longrightarrow>
        \<not> running (retired (step c ev) ! i))"
  by (cases ev; cases "pc c")
     (auto simp: step_defs nth_list_update
           split: exn.splits disposition.splits signum.splits nat.splits option.splits
             if_splits)

lemma retired_run:
  "length (retired (run c evs)) = length (retired c)
   \<and> (i < length (retired c) \<longrightarrow> \<not> running (retired c ! i) \<longrightarrow>
        \<not> running (retired (run c evs) ! i))"
proof (induction evs arbitrary: c)
  case Nil
  show ?case by simp
next
  case (Cons ev evs)
  from retired_step [of c ev i] Cons.IH [of "step c ev"] show ?case by simp
qed

subsection \<open>The counter\<close>







subsection \<open>The signal table\<close>





lemma handled_signal:
  "handlers c sg = Bound_self \<Longrightarrow> \<not> terminal (pc c) \<Longrightarrow>
     step c (EvSig sg) =
       c\<lparr>app := (app c)\<lparr>running := False\<rparr>,
         logs := logs c @ [Entry INFO (Received_signal sg) None]\<rparr>"
  by (simp add: deliver_def signal_handler_def)

subsection \<open>The sleep\<close>

text \<open>After \<open>k\<close> of the \<open>r\<close> seconds the run is still asleep, with \<open>r - k\<close> to go.\<close>

lemma sleep_part:
  "pc c = L67 r \<Longrightarrow> k < r \<Longrightarrow>
     run c (replicate k EvStep) = c\<lparr>clock := clock c + k, pc := L67 (r - k)\<rparr>"
proof (induction k arbitrary: c r)
  case 0
  then show ?case by simp
next
  case (Suc k)
  then obtain r' where r: "r = Suc r'" and k: "k < r'" by (cases r) auto
  let ?c = "c\<lparr>clock := clock c + 1, pc := L67 r'\<rparr>"
  have "step c EvStep = ?c"
    using Suc.prems r k by (simp add: statement_def)
  moreover have "run ?c (replicate k EvStep) = ?c\<lparr>clock := clock c + 1 + k, pc := L67 (r' - k)\<rparr>"
    using Suc.IH [of ?c r'] k by simp
  ultimately show ?case using r by simp
qed

lemma sleep_full:
  assumes p: "pc c = L67 r" and r: "0 < r"
  shows "run c (replicate r EvStep) = c\<lparr>clock := clock c + r, pc := L55\<rparr>"
proof -
  from r obtain k where k: "r = Suc k" by (cases r) auto
  have "replicate r EvStep = replicate k EvStep @ [EvStep]"
    unfolding k by (simp add: replicate_append_same)
  moreover have "run c (replicate k EvStep) = c\<lparr>clock := clock c + k, pc := L67 (r - k)\<rparr>"
    using p k by (intro sleep_part) auto
  ultimately show ?thesis using k by (simp add: run_append statement_def)
qed

text \<open>
  A handled signal at the start of a wait of \<open>r\<close> seconds: the wait, the failing loop
  test and the \<^verbatim>\<open>finally\<close> block follow.
\<close>

lemma signal_then_sleep:
  assumes "pc c = L67 r" and "0 < r" and "handlers c sg = Bound_self"
  shows "run c (EvSig sg # replicate r EvStep @ [EvStep, EvStep]) =
           c\<lparr>app := (app c)\<lparr>running := False\<rparr>,
             logs := logs c @ [Entry INFO (Received_signal sg) None,
                               Entry INFO App_service_stopped None],
             clock := clock c + r, pc := Returned\<rparr>"
proof -
  let ?d = "c\<lparr>app := (app c)\<lparr>running := False\<rparr>,
             logs := logs c @ [Entry INFO (Received_signal sg) None]\<rparr>"
  have s: "step c (EvSig sg) = ?d"
    by (rule handled_signal) (use assms in auto)
  have d: "pc ?d = L67 r" using assms by simp
  have "run ?d (replicate r EvStep) = ?d\<lparr>clock := clock ?d + r, pc := L55\<rparr>"
    using d assms(2) by (rule sleep_full)
  then have "run c (EvSig sg # replicate r EvStep @ [EvStep, EvStep]) =
      run (?d\<lparr>clock := clock ?d + r, pc := L55\<rparr>) [EvStep, EvStep]"
    using s by (simp add: run_append)
  also have "\<dots> = c\<lparr>app := (app c)\<lparr>running := False\<rparr>,
             logs := logs c @ [Entry INFO (Received_signal sg) None,
                               Entry INFO App_service_stopped None],
             clock := clock c + r, pc := Returned\<rparr>"
    by (simp add: statement_def)
  finally show ?thesis .
qed

subsection \<open>Leaving the loop\<close>





subsection \<open>Two runs side by side\<close>

lemma env_sim_step_at:
  "pc c = p \<Longrightarrow> pc d = p \<Longrightarrow> env_sim c d \<Longrightarrow> env_sim (step c ev) (step d ev)"
  by (cases ev; cases p)
     (auto simp: env_sim_def control_def step_defs log_environment_info_def
           split: exn.splits disposition.splits signum.splits nat.splits option.splits)

lemma env_sim_step: "env_sim c d \<Longrightarrow> env_sim (step c ev) (step d ev)"
  by (rule env_sim_step_at [of c "pc c"]) (simp_all add: env_sim_def control_def)

lemma env_sim_run: "env_sim c d \<Longrightarrow> env_sim (run c evs) (run d evs)"
  by (induction evs arbitrary: c d) (auto simp: env_sim_step)








section \<open>The wait between ticks\<close>




section \<open>Exceptions in the unit of work\<close>




section \<open>Signal handling\<close>



section \<open>Shutdown is one-way\<close>

text \<open>
  C4. Once \<open>running\<close> is false, nothing the program does sets it back: after any
  further statements, signals and exceptions it is still false. In the words of the
  state machine, a run that is \<open>Stopping\<close> or \<open>Stopped\<close> is never \<open>Running\<close> (or
  \<open>Starting\<close>) again. The same holds for the flag of each instance of an earlier run.
\<close>

theorem shutdown_one_way:
  "(\<not> running (app c) \<longrightarrow> \<not> running (app (run c evs)))
   \<and> (phase c = Stopping \<or> phase c = Stopped \<longrightarrow>
        phase (run c evs) = Stopping \<or> phase (run c evs) = Stopped)
   \<and> (i < length (retired c) \<and> \<not> running (retired c ! i) \<longrightarrow>
        \<not> running (retired (run c evs) ! i))"
  using run_not_running [of c evs] phase_run [of c evs] retired_run [of c evs i]
  by blast

text \<open>
  An instance of it: a second run in a process whose first run was stopped by
  \<^verbatim>\<open>SIGTERM\<close>. \<^verbatim>\<open>SIGINT\<close> arrives in its first wait; then come the rest of the
  wait, another signal, an exception and the \<^verbatim>\<open>finally\<close> block.
\<close>

theorem shutdown_one_way_witness:
  "\<not> running (app (run (new_instance (main a_system 0
        (replicate 4 EvStep @ [EvSig SIGTERM, EvStep, EvStep]))) (replicate 7 EvStep @ [EvSig SIGINT])))
   \<and> phase (run (new_instance (main a_system 0
        (replicate 4 EvStep @ [EvSig SIGTERM, EvStep, EvStep]))) (replicate 7 EvStep)) = Running
   \<and> phase (run (new_instance (main a_system 0
        (replicate 4 EvStep @ [EvSig SIGTERM, EvStep, EvStep]))) (replicate 7 EvStep @ [EvSig SIGINT]))
       = Stopping
   \<and> \<not> running (retired (run (new_instance (main a_system 0
        (replicate 4 EvStep @ [EvSig SIGTERM, EvStep, EvStep]))) (replicate 7 EvStep @ [EvSig SIGINT])) ! 0)
   \<and> \<not> running (app (run (run (new_instance (main a_system 0
        (replicate 4 EvStep @ [EvSig SIGTERM, EvStep, EvStep]))) (replicate 7 EvStep @ [EvSig SIGINT]))
        (replicate 60 EvStep @ [EvSig SIGTERM, EvRaise (Exception ''x''), EvStep])))
   \<and> phase (run (run (new_instance (main a_system 0
        (replicate 4 EvStep @ [EvSig SIGTERM, EvStep, EvStep]))) (replicate 7 EvStep @ [EvSig SIGINT]))
        (replicate 60 EvStep @ [EvSig SIGTERM, EvRaise (Exception ''x''), EvStep])) \<noteq> Running
   \<and> \<not> running (retired (run (run (new_instance (main a_system 0
        (replicate 4 EvStep @ [EvSig SIGTERM, EvStep, EvStep]))) (replicate 7 EvStep @ [EvSig SIGINT]))
        (replicate 60 EvStep @ [EvSig SIGTERM, EvRaise (Exception ''x''), EvStep])) ! 0)"
proof -
  let ?b = "new_instance (main a_system 0 (replicate 4 EvStep @ [EvSig SIGTERM, EvStep, EvStep]))"
  let ?c = "run ?b (replicate 7 EvStep @ [EvSig SIGINT])"
  let ?evs = "replicate 60 EvStep @ [EvSig SIGTERM, EvRaise (Exception ''x''), EvStep]"
  have r: "\<not> running (app ?c)" and p: "phase ?c = Stopping"
    and q: "phase (run ?b (replicate 7 EvStep)) = Running"
    and i: "0 < length (retired ?c)" and o: "\<not> running (retired ?c ! 0)"
    by (simp_all add: eval_defs new_instance_def phase_def eval_nat_numeral)
  from shutdown_one_way [of ?c ?evs 0] r p i o
  have "\<not> running (app (run ?c ?evs))
      \<and> (phase (run ?c ?evs) = Stopping \<or> phase (run ?c ?evs) = Stopped)
      \<and> \<not> running (retired (run ?c ?evs) ! 0)"
    by blast
  then have "\<not> running (app (run ?c ?evs)) \<and> phase (run ?c ?evs) \<noteq> Running
      \<and> \<not> running (retired (run ?c ?evs) ! 0)"
    by auto
  with r p q o show ?thesis by blast
qed

section \<open>The tick counter\<close>



section \<open>Exit status\<close>



section \<open>A manual interrupt during the wait\<close>

text \<open>
  C7. A \<^verbatim>\<open>KeyboardInterrupt\<close> raised during the wait is caught by line 69 and logged at
  informational severity; the \<^verbatim>\<open>finally\<close> block logs the stop, \<^verbatim>\<open>run()\<close> returns and
  the process exits with status 0. A termination signal handled during the same wait
  ends the same way: \<^verbatim>\<open>run()\<close> returns, the exit status is 0, the counter is the same,
  the records logged since are informational ones, the last of them the stop.
\<close>

theorem keyboard_interrupt_in_wait:
  assumes "pc c = L67 r"
  shows "step c (EvRaise KeyboardInterrupt) =
           c\<lparr>logs := logs c @ [Entry INFO Received_keyboard_interrupt None], pc := L74 None\<rparr>
     \<and> run c [EvRaise KeyboardInterrupt, EvStep] =
           c\<lparr>logs := logs c @ [Entry INFO Received_keyboard_interrupt None,
                               Entry INFO App_service_stopped None],
             pc := Returned\<rparr>
     \<and> exit_status (run c [EvRaise KeyboardInterrupt, EvStep]) = Exit 0
     \<and> (0 < r \<and> handlers c sg = Bound_self \<longrightarrow>
          pc (run c (EvSig sg # replicate r EvStep @ [EvStep, EvStep]))
            = pc (run c [EvRaise KeyboardInterrupt, EvStep])
          \<and> exit_status (run c (EvSig sg # replicate r EvStep @ [EvStep, EvStep]))
            = exit_status (run c [EvRaise KeyboardInterrupt, EvStep])
          \<and> counter (app (run c (EvSig sg # replicate r EvStep @ [EvStep, EvStep])))
            = counter (app (run c [EvRaise KeyboardInterrupt, EvStep]))
          \<and> map severity (drop (length (logs c))
               (logs (run c (EvSig sg # replicate r EvStep @ [EvStep, EvStep]))))
            = map severity (drop (length (logs c))
               (logs (run c [EvRaise KeyboardInterrupt, EvStep])))
          \<and> last (logs (run c (EvSig sg # replicate r EvStep @ [EvStep, EvStep])))
            = last (logs (run c [EvRaise KeyboardInterrupt, EvStep])))"
proof -
  have 1: "step c (EvRaise KeyboardInterrupt) =
           c\<lparr>logs := logs c @ [Entry INFO Received_keyboard_interrupt None], pc := L74 None\<rparr>"
    using assms by (simp add: raise_def except_def)
  then have 2: "run c [EvRaise KeyboardInterrupt, EvStep] =
           c\<lparr>logs := logs c @ [Entry INFO Received_keyboard_interrupt None,
                               Entry INFO App_service_stopped None],
             pc := Returned\<rparr>"
    by (simp add: statement_def)
  have 4: "run c (EvSig sg # replicate r EvStep @ [EvStep, EvStep]) =
           c\<lparr>app := (app c)\<lparr>running := False\<rparr>,
             logs := logs c @ [Entry INFO (Received_signal sg) None,
                               Entry INFO App_service_stopped None],
             clock := clock c + r, pc := Returned\<rparr>"
    if "0 < r" "handlers c sg = Bound_self"
    using assms that by (rule signal_then_sleep)
  show ?thesis
    unfolding 2 using 1 4 by (simp add: exit_status_def)
qed

text \<open>An instance of it: the first wait of a fresh process.\<close>

theorem keyboard_interrupt_in_wait_witness:
  "pc (main a_system 0 (replicate 7 EvStep)) = L67 60
   \<and> drop 6 (logs (main a_system 0 (replicate 7 EvStep @ [EvRaise KeyboardInterrupt, EvStep])))
       = [Entry INFO Received_keyboard_interrupt None, Entry INFO App_service_stopped None]
   \<and> exit_status (main a_system 0 (replicate 7 EvStep @ [EvRaise KeyboardInterrupt, EvStep])) = Exit 0
   \<and> exit_status (main a_system 0 (replicate 7 EvStep @ EvSig SIGTERM # replicate 60 EvStep
        @ [EvStep, EvStep])) = Exit 0"
proof -
  let ?c = "main a_system 0 (replicate 7 EvStep)"
  have p: "pc ?c = L67 60" and h: "handlers ?c SIGTERM = Bound_self"
    and l: "length (logs ?c) = 6"
    by (simp_all add: eval_defs eval_nat_numeral)
  have e: "main a_system 0 (replicate 7 EvStep @ ys) = run ?c ys" for ys
    by (simp add: main_def run_append)
  note t = keyboard_interrupt_in_wait [OF p, of SIGTERM]
  note t2 = t [THEN conjunct2, THEN conjunct1]
  note t3 = t [THEN conjunct2, THEN conjunct2, THEN conjunct1]
  note t4 = t [THEN conjunct2, THEN conjunct2, THEN conjunct2]
  have "drop 6 (logs (run ?c [EvRaise KeyboardInterrupt, EvStep])) =
      [Entry INFO Received_keyboard_interrupt None, Entry INFO App_service_stopped None]"
    unfolding t2 using l by simp
  moreover have z: "(0::nat) < 60" by simp
  from t4 z h t3
  have "exit_status (run ?c (EvSig SIGTERM # replicate 60 EvStep @ [EvStep, EvStep])) = Exit 0"
    by metis
  ultimately show ?thesis using p t3 by (simp only: e)
qed

section \<open>Two runs in one process\<close>




section \<open>Environment variables\<close>

text \<open>
  C9. The environment variables have no part in the control flow: put any environment
  \<open>env\<close> in the place of the one the process has (with \<^verbatim>\<open>VIRTUAL_ENV\<close> set, set
  otherwise, or absent) and, under the same events, the run is at the same place with
  the same instance, signal table and clock, and has logged the same records, but for
  the text of the one record that shows the variable.
\<close>

theorem environ_not_in_control:
  "control (run (c\<lparr>sys := (sys c)\<lparr>environ := env\<rparr>\<rparr>) evs) = control (run c evs)"
proof -
  have "env_sim (c\<lparr>sys := (sys c)\<lparr>environ := env\<rparr>\<rparr>) c"
    by (simp add: env_sim_def control_def)
  then have "env_sim (run (c\<lparr>sys := (sys c)\<lparr>environ := env\<rparr>\<rparr>) evs) (run c evs)"
    by (rule env_sim_run)
  then show ?thesis by (simp add: env_sim_def)
qed

text \<open>
  An instance of it: with \<^verbatim>\<open>VIRTUAL_ENV\<close> set the fourth record shows its value, and
  the run has come as far as without it.
\<close>

theorem environ_not_in_control_witness:
  "logs (run (boot a_system 0\<lparr>sys := (sys (boot a_system 0))
        \<lparr>environ := [''VIRTUAL_ENV'' \<mapsto> ''/opt/venv'']\<rparr>\<rparr>) (replicate 7 EvStep)) ! 3
     = Entry INFO (Virtual_environment ''/opt/venv'') None
   \<and> logs (run (boot a_system 0) (replicate 7 EvStep)) ! 3
     = Entry INFO (Virtual_environment ''Not set'') None
   \<and> fst (control (run (boot a_system 0\<lparr>sys := (sys (boot a_system 0))
        \<lparr>environ := [''VIRTUAL_ENV'' \<mapsto> ''/opt/venv'']\<rparr>\<rparr>) (replicate 7 EvStep))) = L67 60"
proof -
  let ?c = "boot a_system 0"
  have "fst (control (run ?c (replicate 7 EvStep))) = L67 60"
    by (simp add: eval_defs control_def eval_nat_numeral)
  with environ_not_in_control [where c = ?c and env = "[''VIRTUAL_ENV'' \<mapsto> ''/opt/venv'']"
      and evs = "replicate 7 EvStep"]
  have "fst (control (run (?c\<lparr>sys := (sys ?c)
        \<lparr>environ := [''VIRTUAL_ENV'' \<mapsto> ''/opt/venv'']\<rparr>\<rparr>) (replicate 7 EvStep))) = L67 60"
    by simp
  moreover have "logs (run (?c\<lparr>sys := (sys ?c)
        \<lparr>environ := [''VIRTUAL_ENV'' \<mapsto> ''/opt/venv'']\<rparr>\<rparr>) (replicate 7 EvStep)) ! 3
     = Entry INFO (Virtual_environment ''/opt/venv'') None"
    "logs (run ?c (replicate 7 EvStep)) ! 3 = Entry INFO (Virtual_environment ''Not set'') None"
    by (simp_all add: eval_defs eval_nat_numeral)
  ultimately show ?thesis by simp
qed

section \<open>The frame of the signal handler\<close>

text \<open>
  C10. The signal handler writes \<open>running\<close> and nothing else of the instance: whatever
  the instance, the signal and the log, it returns the instance it was given with only
  \<open>running\<close> set to false; the counter and every other field the instance may have are
  as they were.
\<close>

theorem signal_handler_frame:
  "fst (signal_handler self sg lg) = self\<lparr>running := False\<rparr>
   \<and> counter (fst (signal_handler self sg lg)) = counter self
   \<and> App.more (fst (signal_handler self sg lg)) = App.more self
   \<and> \<not> running (fst (signal_handler self sg lg))"
  by (simp add: signal_handler_def)

end
